theory Spec2Isabelle
  imports Complex_Main
begin

section \<open>JavaScript values as the table code sees them\<close>

text \<open>
  The table code works on untyped (\<^verbatim>\<open>any\<close>) values that the host delivers as query
  results: plain data. A value is \<^verbatim>\<open>undefined\<close>, \<^verbatim>\<open>null\<close>, a boolean, a number, a
  string, an array or an object whose own properties are data properties. An object is
  the list of its own enumerable properties in the order \<^verbatim>\<open>Object.entries\<close> lists them;
  a well-formed object has no key twice. Properties inherited from a prototype
  (\<^verbatim>\<open>toString\<close>, \<^verbatim>\<open>constructor\<close>, the array methods) are not part of the model, and
  neither are exotic objects (proxies, accessor properties, dates).

  Numbers are data here: the code tests them for truthiness and hands them to
  \<^verbatim>\<open>toLocaleString\<close>, and never computes with them. The two zeros are one value.
\<close>

datatype js_error = TypeError

datatype jsnum = Finite rat | NaN | PosInfinity | NegInfinity

datatype jsval =
    JUndefined
  | JNull
  | JBool bool
  | JNum jsnum
  | JStr string
  | JArr "jsval list"
  | JObj "(string \<times> jsval) list"

datatype js_type = TUndefined | TObject | TBoolean | TNumber | TString

definition typeof :: "jsval \<Rightarrow> js_type" where
  "typeof v =
     (case v of
        JUndefined \<Rightarrow> TUndefined
      | JNull \<Rightarrow> TObject
      | JBool b \<Rightarrow> TBoolean
      | JNum n \<Rightarrow> TNumber
      | JStr s \<Rightarrow> TString
      | JArr xs \<Rightarrow> TObject
      | JObj es \<Rightarrow> TObject)"

text \<open>Truthiness, as \<^verbatim>\<open>&&\<close>, \<^verbatim>\<open>||\<close>, \<^verbatim>\<open>!\<close> and \<^verbatim>\<open>if\<close> test it.\<close>

definition truthy :: "jsval \<Rightarrow> bool" where
  "truthy v =
     (case v of
        JUndefined \<Rightarrow> False
      | JNull \<Rightarrow> False
      | JBool b \<Rightarrow> b
      | JNum n \<Rightarrow> n \<noteq> Finite 0 \<and> n \<noteq> NaN
      | JStr s \<Rightarrow> s \<noteq> []
      | JArr xs \<Rightarrow> True
      | JObj es \<Rightarrow> True)"

definition nullish :: "jsval \<Rightarrow> bool" where
  "nullish v = (v = JNull \<or> v = JUndefined)"

text \<open>A step that may raise, followed by the rest of the computation.\<close>

definition and_then :: "js_error + 'a \<Rightarrow> ('a \<Rightarrow> js_error + 'b) \<Rightarrow> js_error + 'b" where
  "and_then m f = (case m of Inl e \<Rightarrow> Inl e | Inr x \<Rightarrow> f x)"

subsection \<open>Own properties\<close>

text \<open>The decimal text of an array index, as property keys spell it.\<close>

fun index_key :: "nat \<Rightarrow> string" where
  "index_key n =
     (if n < 10 then [char_of (48 + n)]
      else index_key (n div 10) @ [char_of (48 + n mod 10)])"

declare index_key.simps [simp del]

definition index_entries :: "jsval list \<Rightarrow> (string \<times> jsval) list" where
  "index_entries xs = zip (map index_key [0..<length xs]) xs"

text \<open>
  \<^verbatim>\<open>enum_props v\<close> are the own enumerable properties of \<open>v\<close> (what \<^verbatim>\<open>Object.entries\<close>
  and object spread read); \<^verbatim>\<open>own_props v\<close> adds the \<^verbatim>\<open>length\<close> of arrays and strings.
\<close>

definition enum_props :: "jsval \<Rightarrow> (string \<times> jsval) list" where
  "enum_props v =
     (case v of
        JObj es \<Rightarrow> es
      | JArr xs \<Rightarrow> index_entries xs
      | JStr s \<Rightarrow> index_entries (map (\<lambda>c. JStr [c]) s)
      | _ \<Rightarrow> [])"

definition own_props :: "jsval \<Rightarrow> (string \<times> jsval) list" where
  "own_props v =
     (case v of
        JArr xs \<Rightarrow> index_entries xs @ [(''length'', JNum (Finite (of_nat (length xs))))]
      | JStr s \<Rightarrow> enum_props v @ [(''length'', JNum (Finite (of_nat (length s))))]
      | _ \<Rightarrow> enum_props v)"

text \<open>\<^verbatim>\<open>v[k]\<close> and \<^verbatim>\<open>v.k\<close>: a TypeError on \<^verbatim>\<open>null\<close> and \<^verbatim>\<open>undefined\<close>, \<^verbatim>\<open>undefined\<close> for a
  missing key.\<close>

definition get_prop :: "jsval \<Rightarrow> string \<Rightarrow> js_error + jsval" where
  "get_prop v k =
     (if nullish v then Inl TypeError
      else Inr (case map_of (own_props v) k of Some x \<Rightarrow> x | None \<Rightarrow> JUndefined))"

text \<open>\<^verbatim>\<open>v?.k\<close>: \<^verbatim>\<open>undefined\<close> on \<^verbatim>\<open>null\<close> and \<^verbatim>\<open>undefined\<close> instead of the TypeError.\<close>

definition opt_prop :: "jsval \<Rightarrow> string \<Rightarrow> js_error + jsval" where
  "opt_prop v k = (if nullish v then Inr JUndefined else get_prop v k)"

text \<open>\<^verbatim>\<open>k in v\<close>: a TypeError when \<open>v\<close> is not an object.\<close>

definition in_op :: "string \<Rightarrow> jsval \<Rightarrow> js_error + bool" where
  "in_op k v =
     (case v of
        JObj es \<Rightarrow> Inr (map_of (own_props v) k \<noteq> None)
      | JArr xs \<Rightarrow> Inr (map_of (own_props v) k \<noteq> None)
      | _ \<Rightarrow> Inl TypeError)"

text \<open>\<^verbatim>\<open>obj[k] = v\<close> on an ordinary object: the key keeps its place when it is there, and
  is added last otherwise. (JavaScript lists the keys that spell an array index before
  the others; the table code looks cells up by key, so the place of a key matters to
  none of its results.)\<close>

primrec assign_prop :: "string \<Rightarrow> jsval \<Rightarrow> (string \<times> jsval) list \<Rightarrow> (string \<times> jsval) list" where
  "assign_prop k v [] = [(k, v)]"
| "assign_prop k v (p # ps) = (if fst p = k then (k, v) # ps else p # assign_prop k v ps)"

text \<open>\<^verbatim>\<open>Object.entries(v)\<close>: a TypeError on \<^verbatim>\<open>null\<close> and \<^verbatim>\<open>undefined\<close>.\<close>

definition object_entries :: "jsval \<Rightarrow> js_error + (string \<times> jsval) list" where
  "object_entries v = (if nullish v then Inl TypeError else Inr (enum_props v))"

text \<open>\<^verbatim>\<open>xs.map(f)\<close> and \<^verbatim>\<open>xs.forEach(f)\<close> with a callback that may raise: the first raise
  ends the loop.\<close>

fun map_raising :: "('a \<Rightarrow> js_error + 'b) \<Rightarrow> 'a list \<Rightarrow> js_error + 'b list" where
  "map_raising f [] = Inr []"
| "map_raising f (x # xs) =
     and_then (f x) (\<lambda>y. and_then (map_raising f xs) (\<lambda>ys. Inr (y # ys)))"

fun for_each :: "('a \<Rightarrow> 's \<Rightarrow> js_error + 's) \<Rightarrow> 'a list \<Rightarrow> 's \<Rightarrow> js_error + 's" where
  "for_each f [] s = Inr s"
| "for_each f (x # xs) s = and_then (f x s) (for_each f xs)"

text \<open>A well-formed object names each own property once.\<close>

definition wf_object :: "jsval \<Rightarrow> bool" where
  "wf_object v = (case v of JObj es \<Rightarrow> distinct (map fst es) | _ \<Rightarrow> False)"

section \<open>tableUtils: formatFieldLabel\<close>

text \<open>
  Strings are lists of characters. The model of \<^verbatim>\<open>toUpperCase\<close>, \<^verbatim>\<open>toLowerCase\<close> and of the
  whitespace class of regular expressions is the one of ASCII text, which is what field identifiers are made of:
  a character outside ASCII is no letter and no space here.
\<close>

definition toUpperCase :: "char \<Rightarrow> char" where
  "toUpperCase c =
     (if 97 \<le> (of_char c :: nat) \<and> (of_char c :: nat) \<le> 122
      then char_of ((of_char c :: nat) - 32) else c)"

definition toLowerCase :: "char \<Rightarrow> char" where
  "toLowerCase c =
     (if 65 \<le> (of_char c :: nat) \<and> (of_char c :: nat) \<le> 90
      then char_of ((of_char c :: nat) + 32) else c)"

text \<open>The character class of the pattern that splits a name into words: the underscore
  and whitespace (the space, and the controls from tab to carriage return).\<close>

definition label_separator :: "char \<Rightarrow> bool" where
  "label_separator c =
     (c = CHR ''_'' \<or> c = CHR '' '' \<or> (9 \<le> (of_char c :: nat) \<and> (of_char c :: nat) \<le> 13))"

text \<open>\<^verbatim>\<open>fieldName.split('.')\<close>: the pieces between the separators, at least one.\<close>

fun split_char :: "char \<Rightarrow> string \<Rightarrow> string list" where
  "split_char c [] = [[]]"
| "split_char c (x # xs) =
     (if x = c then [] # split_char c xs
      else (case split_char c xs of
              [] \<Rightarrow> [[x]]
            | w # ws \<Rightarrow> (x # w) # ws))"

text \<open>Splitting on the pattern "one or more separators": as above, with a whole run of
  separators as one separator.\<close>

function split_runs :: "(char \<Rightarrow> bool) \<Rightarrow> string \<Rightarrow> string list" where
  "split_runs sep [] = [[]]"
| "split_runs sep (x # xs) =
     (if sep x then [] # split_runs sep (dropWhile sep xs)
      else (case split_runs sep xs of
              [] \<Rightarrow> [[x]]
            | w # ws \<Rightarrow> (x # w) # ws))"
  by pat_completeness auto
termination
  by (relation "measure (\<lambda>(sep, s). length s)")
     (auto simp: length_dropWhile_le less_Suc_eq_le)

text \<open>\<^verbatim>\<open>word.charAt(0).toUpperCase() + word.slice(1).toLowerCase()\<close>; the empty word
  stays empty.\<close>

definition title_word :: "string \<Rightarrow> string" where
  "title_word word =
     (case word of [] \<Rightarrow> [] | c # cs \<Rightarrow> toUpperCase c # map toLowerCase cs)"

fun join_with :: "string \<Rightarrow> string list \<Rightarrow> string" where
  "join_with glue [] = []"
| "join_with glue [w] = w"
| "join_with glue (w # ws) = w @ glue @ join_with glue ws"

definition formatFieldLabel :: "string \<Rightarrow> string" where
  "formatFieldLabel fieldName =
     (let parts = split_char (CHR ''.'') fieldName;
          displayName = last parts;
          words = split_runs label_separator displayName
      in join_with '' '' (map title_word words))"

section \<open>tableUtils: getFieldValue\<close>

text \<open>
  The test \<^verbatim>\<open>value && typeof value === 'object' && 'value' in value\<close> that all of the
  table code uses to recognise Looker's \<^verbatim>\<open>{value, rendered}\<close> cells.
\<close>

definition looker_value_object :: "jsval \<Rightarrow> js_error + bool" where
  "looker_value_object v =
     (if truthy v \<and> typeof v = TObject then in_op ''value'' v else Inr False)"

definition unwrap_looker :: "jsval \<Rightarrow> js_error + jsval" where
  "unwrap_looker v =
     and_then (looker_value_object v) (\<lambda>w. if w then get_prop v ''value'' else Inr v)"

text \<open>The loop \<^verbatim>\<open>for (const part of parts)\<close> of the nested access, with the early
  return of \<^verbatim>\<open>undefined\<close>.\<close>

fun nested_access :: "string list \<Rightarrow> jsval \<Rightarrow> js_error + jsval" where
  "nested_access [] v = Inr v"
| "nested_access (part # parts) v =
     (if v = JNull \<or> v = JUndefined \<or> typeof v \<noteq> TObject then Inr JUndefined
      else and_then (get_prop v part) (\<lambda>v'.
           and_then (unwrap_looker v') (nested_access parts)))"

definition getFieldValue :: "jsval \<Rightarrow> string \<Rightarrow> js_error + jsval" where
  "getFieldValue obj fieldName =
     and_then (in_op fieldName obj) (\<lambda>direct.
       if direct then and_then (get_prop obj fieldName) unwrap_looker
       else nested_access (split_char (CHR ''.'') fieldName) obj)"

section \<open>tableUtils: transformLookerData\<close>

text \<open>
  The body of the \<^verbatim>\<open>try\<close> block computes the value that it stores under the key; a raise
  leaves the key to the handler.
\<close>

definition looker_try_body :: "jsval \<Rightarrow> js_error + jsval" where
  "looker_try_body v =
     (if v = JNull \<or> v = JUndefined then Inr JNull
      else and_then (if typeof v = TObject then in_op ''value'' v else Inr False) (\<lambda>w.
             if w then get_prop v ''value'' else Inr v))"

text \<open>
  The callback of \<^verbatim>\<open>Object.entries(row).forEach\<close>: the \<^verbatim>\<open>try\<close> block around a body, and
  the handler that stores \<^verbatim>\<open>null\<close> under the key. The body is an argument, so that what
  the handler does is stated for every way a body can fail.
\<close>

definition try_field ::
  "(jsval \<Rightarrow> js_error + jsval) \<Rightarrow> string \<times> jsval \<Rightarrow> (string \<times> jsval) list \<Rightarrow> (string \<times> jsval) list" where
  "try_field body entry transformedRow =
     (case body (snd entry) of
        Inr x \<Rightarrow> assign_prop (fst entry) x transformedRow
      | Inl err \<Rightarrow> assign_prop (fst entry) JNull transformedRow)"

definition transform_row_with :: "(jsval \<Rightarrow> js_error + jsval) \<Rightarrow> jsval \<Rightarrow> js_error + jsval" where
  "transform_row_with body row =
     and_then (object_entries row) (\<lambda>entries.
       Inr (JObj (foldl (\<lambda>transformedRow entry. try_field body entry transformedRow) [] entries)))"

definition transform_data_with :: "(jsval \<Rightarrow> js_error + jsval) \<Rightarrow> jsval list \<Rightarrow> js_error + jsval list" where
  "transform_data_with body data = map_raising (transform_row_with body) data"

definition transformLookerData :: "jsval list \<Rightarrow> js_error + jsval list" where
  "transformLookerData data = transform_data_with looker_try_body data"

section \<open>useTableLogic: the columns and their cell renderer\<close>

text \<open>
  The \<^verbatim>\<open>cell\<close> function of a column, applied to \<^verbatim>\<open>info.getValue()\<close>. The two host
  functions it calls are parameters: \<^verbatim>\<open>toLocaleString\<close> of a number and
  \<^verbatim>\<open>JSON.stringify\<close>.
\<close>

definition cell :: "(jsnum \<Rightarrow> string) \<Rightarrow> (jsval \<Rightarrow> string) \<Rightarrow> jsval \<Rightarrow> js_error + jsval" where
  "cell toLocaleString stringify v =
     (if v = JNull \<or> v = JUndefined then Inr (JStr ''-'')
      else if typeof v = TObject \<and> v \<noteq> JNull then
        and_then (in_op ''value'' v) (\<lambda>w.
          if w then
            and_then (get_prop v ''rendered'') (\<lambda>rendered.
              if truthy rendered then Inr rendered
              else and_then (get_prop v ''value'') (\<lambda>u.
                     if truthy u then Inr u else Inr (JStr ''-'')))
          else Inr (JStr (stringify v)))
      else (case v of
              JNum n \<Rightarrow> Inr (JStr (toLocaleString n))
            | _ \<Rightarrow> Inr v))"

datatype field_kind = Dimension | Measure | Calculation

record field =
  name :: jsval
  label :: jsval
  kind :: field_kind

text \<open>\<^verbatim>\<open>TableFeatureConfig\<close>: every key may be absent, and so may the configuration.\<close>

datatype resize_mode = OnChange | OnEnd

record table_feature_config =
  enableColumnResizing :: "bool option"
  enableRowSelection :: "bool option"
  enableColumnFilters :: "bool option"
  enablePinning :: "bool option"
  enableGrouping :: "bool option"
  columnResizeMode :: "resize_mode option"
  rowsPerPage :: "nat option"

text \<open>The options of a column that \<^verbatim>\<open>createColumns\<close> sets; the accessor of the column is
  \<open>\<lambda>row. getFieldValue row\<close> at the column's id and its renderer is \<open>cell\<close>.\<close>

record column =
  col_id :: jsval
  col_header :: jsval
  col_enableSorting :: bool
  col_enableColumnFilter :: bool
  col_enablePinning :: bool
  col_enableGrouping :: bool
  col_enableResizing :: bool

text \<open>\<^verbatim>\<open>config?.flag ?? false\<close>.\<close>

definition flag_or_false ::
  "table_feature_config option \<Rightarrow> (table_feature_config \<Rightarrow> bool option) \<Rightarrow> bool" where
  "flag_or_false config flag =
     (case config of
        None \<Rightarrow> False
      | Some c \<Rightarrow> (case flag c of None \<Rightarrow> False | Some b \<Rightarrow> b))"

text \<open>\<^verbatim>\<open>formatFieldLabel(x)\<close> on an untyped argument: \<^verbatim>\<open>x.split\<close> is a function on
  strings only.\<close>

definition formatFieldLabel_any :: "jsval \<Rightarrow> js_error + jsval" where
  "formatFieldLabel_any x =
     (case x of JStr s \<Rightarrow> Inr (JStr (formatFieldLabel s)) | _ \<Rightarrow> Inl TypeError)"

definition make_field :: "field_kind \<Rightarrow> jsval \<Rightarrow> js_error + field" where
  "make_field k d =
     and_then (get_prop d ''name'') (\<lambda>n.
     and_then (get_prop d ''label'') (\<lambda>l.
     and_then (if truthy l then Inr l else and_then (get_prop d ''name'') formatFieldLabel_any) (\<lambda>lab.
       Inr \<lparr>name = n, label = lab, kind = k\<rparr>)))"

text \<open>\<^verbatim>\<open>if (fs) allFields.push(...fs.map(...))\<close>: \<^verbatim>\<open>map\<close> is a function on arrays only.\<close>

definition make_fields :: "field_kind \<Rightarrow> jsval \<Rightarrow> js_error + field list" where
  "make_fields k fs =
     (if truthy fs then
        (case fs of JArr ds \<Rightarrow> map_raising (make_field k) ds | _ \<Rightarrow> Inl TypeError)
      else Inr [])"

definition make_column :: "table_feature_config option \<Rightarrow> field \<Rightarrow> column" where
  "make_column config f =
     \<lparr>col_id = name f,
      col_header = label f,
      col_enableSorting = True,
      col_enableColumnFilter = flag_or_false config enableColumnFilters,
      col_enablePinning = flag_or_false config enablePinning,
      col_enableGrouping = flag_or_false config enableGrouping,
      col_enableResizing = flag_or_false config enableColumnResizing\<rparr>"

definition allFields :: "jsval \<Rightarrow> js_error + field list" where
  "allFields queryResponse =
     and_then (get_prop queryResponse ''fieldDimensions'') (\<lambda>dims.
     and_then (make_fields Dimension dims) (\<lambda>ds.
     and_then (get_prop queryResponse ''fieldMeasures'') (\<lambda>measures.
     and_then (make_fields Measure measures) (\<lambda>ms.
     and_then (get_prop queryResponse ''fieldTableCalculations'') (\<lambda>calcs.
     and_then (make_fields Calculation calcs) (\<lambda>cs.
       Inr (ds @ ms @ cs)))))))"

text \<open>\<^verbatim>\<open>createColumns\<close> returns the new columns, which it has stored with
  \<^verbatim>\<open>setColumns\<close>.\<close>

definition createColumns :: "table_feature_config option \<Rightarrow> jsval \<Rightarrow> js_error + column list" where
  "createColumns config queryResponse =
     and_then (allFields queryResponse) (\<lambda>fs. Inr (map (make_column config) fs))"

section \<open>The visualization: transformQueryData and handleDataUpdate\<close>

definition query_field ::
  "string \<times> jsval \<Rightarrow> (string \<times> jsval) list \<Rightarrow> js_error + (string \<times> jsval) list" where
  "query_field entry transformedRow =
     and_then (looker_value_object (snd entry)) (\<lambda>w.
       if w then
         and_then (get_prop (snd entry) ''value'') (\<lambda>u.
         and_then (get_prop (snd entry) ''rendered'') (\<lambda>rendered.
         and_then (if truthy rendered then Inr rendered else get_prop (snd entry) ''value'') (\<lambda>shown.
           Inr (assign_prop (fst entry @ ''_rendered'') shown
                  (assign_prop (fst entry) u transformedRow)))))
       else Inr (assign_prop (fst entry) (snd entry) transformedRow))"

definition transformQueryRow :: "jsval \<Rightarrow> js_error + jsval" where
  "transformQueryRow row =
     and_then (object_entries row) (\<lambda>entries.
     and_then (for_each query_field entries []) (\<lambda>transformedRow.
       Inr (JObj transformedRow)))"

text \<open>
  The first statement logs \<^verbatim>\<open>rawData.length\<close>, which raises on \<^verbatim>\<open>null\<close> and
  \<^verbatim>\<open>undefined\<close>; \<^verbatim>\<open>rawData.map\<close> is a function on arrays only.
\<close>

definition transformQueryData :: "jsval \<Rightarrow> js_error + jsval list" where
  "transformQueryData rawData =
     and_then (get_prop rawData ''length'') (\<lambda>len.
       if \<not> truthy rawData \<or> len = JNum (Finite 0) then Inr []
       else (case rawData of
               JArr rows \<Rightarrow> map_raising transformQueryRow rows
             | _ \<Rightarrow> Inl TypeError))"

text \<open>The state of the component that \<^verbatim>\<open>handleDataUpdate\<close> writes: its own \<^verbatim>\<open>error\<close> and
  \<^verbatim>\<open>isLoading\<close>, and the \<^verbatim>\<open>data\<close> and \<^verbatim>\<open>columns\<close> of the table hook.\<close>

record vis_state =
  error :: "string option"
  isLoading :: bool
  data :: "jsval list"
  columns :: "column list"

text \<open>\<^verbatim>\<open>queryResponse?._queryResponse?.data || queryResponse?.data || []\<close>.\<close>

definition resolve_raw_data :: "jsval \<Rightarrow> js_error + jsval" where
  "resolve_raw_data queryResponse =
     and_then (opt_prop queryResponse ''_queryResponse'') (\<lambda>inner.
     and_then (opt_prop inner ''data'') (\<lambda>nested.
       if truthy nested then Inr nested
       else and_then (opt_prop queryResponse ''data'') (\<lambda>top.
              if truthy top then Inr top else Inr (JArr []))))"

text \<open>The literal \<^verbatim>\<open>fields\<close> of \<^verbatim>\<open>handleDataUpdate\<close> (every record has a constant
  \<open>fields\<close> of its own, so the name is taken).\<close>

definition fixed_fields :: "(string \<times> jsval) list" where
  "fixed_fields =
     [(''fieldDimensions'',
        JArr [JObj [(''name'', JStr ''executive_summary.dynamic_reporting''),
                    (''label'', JStr ''Reporting Date'')]]),
      (''fieldMeasures'',
        JArr [JObj [(''name'', JStr ''executive_summary.total_order_count_dynamic''),
                    (''label'', JStr ''Total Order Count'')]])]"

text \<open>Object spread \<^verbatim>\<open>{...a, ...b}\<close>: the own enumerable properties of each operand are
  assigned in turn; \<^verbatim>\<open>null\<close> and \<^verbatim>\<open>undefined\<close> have none.\<close>

definition spread_into :: "(string \<times> jsval) list \<Rightarrow> (string \<times> jsval) list \<Rightarrow> (string \<times> jsval) list" where
  "spread_into obj props = foldl (\<lambda>acc p. assign_prop (fst p) (snd p) acc) obj props"

text \<open>\<^verbatim>\<open>{...queryResponse, ...fields, data: transformedData}\<close>, the argument of
  \<^verbatim>\<open>createColumns\<close>.\<close>

definition column_request :: "jsval \<Rightarrow> jsval list \<Rightarrow> jsval" where
  "column_request queryResponse transformedData =
     JObj (assign_prop ''data'' (JArr transformedData)
             (spread_into (spread_into [] (enum_props queryResponse)) fixed_fields))"

text \<open>
  The \<^verbatim>\<open>try\<close> block of \<^verbatim>\<open>handleDataUpdate\<close>. No state is written before the last
  operation that can raise, so a raise leaves the state as it was.
\<close>

definition handleDataUpdate_try ::
  "table_feature_config option \<Rightarrow> vis_state \<Rightarrow> jsval \<Rightarrow> js_error + vis_state" where
  "handleDataUpdate_try config st queryResponse =
     and_then (resolve_raw_data queryResponse) (\<lambda>rawData.
     and_then (transformQueryData rawData) (\<lambda>transformedData.
       if length transformedData = 0
       then Inr (st\<lparr>error := Some ''No data available'', isLoading := False\<rparr>)
       else and_then (createColumns config (column_request queryResponse transformedData))
              (\<lambda>newColumns.
                 Inr (st\<lparr>columns := newColumns, data := transformedData,
                         isLoading := False, error := None\<rparr>))))"

text \<open>
  \<^verbatim>\<open>handleDataUpdate\<close>: the logging call before the \<^verbatim>\<open>try\<close> block reads
  \<^verbatim>\<open>queryResponse?.data\<close>; the handler of the block sets the error message.
\<close>

definition handleDataUpdate ::
  "table_feature_config option \<Rightarrow> vis_state \<Rightarrow> jsval \<Rightarrow> js_error + vis_state" where
  "handleDataUpdate config st queryResponse =
     and_then (opt_prop queryResponse ''data'') (\<lambda>logged.
       case handleDataUpdate_try config st queryResponse of
         Inr st' \<Rightarrow> Inr st'
       | Inl err \<Rightarrow>
           Inr (st\<lparr>error := Some ''Failed to process visualization data'', isLoading := False\<rparr>))"

text \<open>What the component returns when it renders: the error panel when \<^verbatim>\<open>error\<close> is a
  non-empty message, the skeleton while loading, the table otherwise.\<close>

datatype view = ErrorMessage string | TableSkeleton | TableView

definition render :: "vis_state \<Rightarrow> view" where
  "render st =
     (case error st of
        Some message \<Rightarrow>
          if message \<noteq> [] then ErrorMessage message
          else if isLoading st then TableSkeleton else TableView
      | None \<Rightarrow> if isLoading st then TableSkeleton else TableView)"

section \<open>useTableLogic: the pagination reset\<close>

text \<open>
  The hook keeps \<^verbatim>\<open>data\<close>, \<^verbatim>\<open>columns\<close>, \<^verbatim>\<open>pageIndex\<close> and \<^verbatim>\<open>pageSize\<close> in state. The
  effect \<^verbatim>\<open>useEffect(() => setPageIndex(0), [data, columns])\<close> compares the two arrays by
  identity, so the state holds the identity of each array (a number that stands for the
  reference) and the dependency values the effect has last run with.
\<close>

record table_state =
  data_ref :: nat
  columns_ref :: nat
  pageIndex :: nat
  pageSize :: nat
  effect_deps :: "(nat \<times> nat) option"

text \<open>The setters of these state variables that the hook hands out (\<^verbatim>\<open>setColumns\<close>
  through \<^verbatim>\<open>createColumns\<close>).\<close>

datatype setter = SetData nat | SetColumns nat | SetPageIndex nat | SetPageSize nat

fun apply_setter :: "setter \<Rightarrow> table_state \<Rightarrow> table_state" where
  "apply_setter (SetData r) s = s\<lparr>data_ref := r\<rparr>"
| "apply_setter (SetColumns r) s = s\<lparr>columns_ref := r\<rparr>"
| "apply_setter (SetPageIndex n) s = s\<lparr>pageIndex := n\<rparr>"
| "apply_setter (SetPageSize n) s = s\<lparr>pageSize := n\<rparr>"

text \<open>After a render the effect runs when it has not run yet or a dependency differs
  from the one of its last run; it sets the page index to zero.\<close>

definition pagination_effect :: "table_state \<Rightarrow> table_state" where
  "pagination_effect s =
     (if effect_deps s = Some (data_ref s, columns_ref s) then s
      else s\<lparr>pageIndex := 0, effect_deps := Some (data_ref s, columns_ref s)\<rparr>)"

text \<open>One update: the setter calls of one event handler, the render, and the effect. The
  render itself still has the page index that the setters have left; the state of the
  hook is the one after the effect has run.\<close>

definition update :: "setter list \<Rightarrow> table_state \<Rightarrow> table_state" where
  "update batch s = pagination_effect (fold apply_setter batch s)"

text \<open>The first render, with \<^verbatim>\<open>useState(config?.rowsPerPage || 10)\<close> for the page size.\<close>

definition mount :: "nat \<Rightarrow> nat \<Rightarrow> table_feature_config option \<Rightarrow> table_state" where
  "mount initialData initialColumns config =
     pagination_effect
       \<lparr>data_ref = initialData, columns_ref = initialColumns, pageIndex = 0,
        pageSize =
          (case config of
             None \<Rightarrow> 10
           | Some c \<Rightarrow> (case rowsPerPage c of None \<Rightarrow> 10 | Some n \<Rightarrow> if n = 0 then 10 else n)),
        effect_deps = None\<rparr>"

inductive reachable :: "table_state \<Rightarrow> bool" where
  mounted: "reachable (mount initialData initialColumns config)"
| updated: "reachable s \<Longrightarrow> reachable (update batch s)"

section \<open>The vocabulary of the specification\<close>

text \<open>An object, as opposed to a primitive or \<^verbatim>\<open>null\<close>.\<close>

definition is_object :: "jsval \<Rightarrow> bool" where
  "is_object v = (case v of JObj es \<Rightarrow> True | JArr xs \<Rightarrow> True | _ \<Rightarrow> False)"

definition primitive :: "jsval \<Rightarrow> bool" where
  "primitive v = (\<not> is_object v)"

text \<open>A wrapper object: an object with a \<^verbatim>\<open>value\<close> key.\<close>

definition wrapper_object :: "jsval \<Rightarrow> bool" where
  "wrapper_object v = (case v of JObj ws \<Rightarrow> map_of ws ''value'' \<noteq> None | _ \<Rightarrow> False)"

text \<open>The field \<open>k\<close> of an object, \<^verbatim>\<open>undefined\<close> when it has none.\<close>

definition field_of :: "jsval \<Rightarrow> string \<Rightarrow> jsval" where
  "field_of v k =
     (case v of
        JObj es \<Rightarrow> (case map_of es k of Some x \<Rightarrow> x | None \<Rightarrow> JUndefined)
      | _ \<Rightarrow> JUndefined)"

text \<open>A wrapper object stands for its \<^verbatim>\<open>value\<close>; any other value for itself.\<close>

definition unwrapped :: "jsval \<Rightarrow> jsval" where
  "unwrapped v = (if wrapper_object v then field_of v ''value'' else v)"

text \<open>A normalized cell: \<^verbatim>\<open>null\<close> for an absent value, the \<^verbatim>\<open>value\<close> of a wrapper, the
  value itself otherwise.\<close>

definition normalized :: "jsval \<Rightarrow> jsval" where
  "normalized v = (if nullish v then JNull else unwrapped v)"








text \<open>A flat cell: a primitive, or a wrapper object whose \<^verbatim>\<open>value\<close> is a primitive.\<close>

definition flat_cell :: "jsval \<Rightarrow> bool" where
  "flat_cell v = (primitive v \<or> (wrapper_object v \<and> primitive (field_of v ''value'')))"




text \<open>The property \<open>k\<close> of any value, \<^verbatim>\<open>undefined\<close> when it has none.\<close>

definition member_of :: "jsval \<Rightarrow> string \<Rightarrow> jsval" where
  "member_of v k = (case map_of (own_props v) k of Some x \<Rightarrow> x | None \<Rightarrow> JUndefined)"



text \<open>The state after the handler of \<^verbatim>\<open>handleDataUpdate\<close> has run, and the state of the
  empty result.\<close>

definition failed :: "vis_state \<Rightarrow> vis_state" where
  "failed st = st\<lparr>error := Some ''Failed to process visualization data'', isLoading := False\<rparr>"

definition no_data :: "vis_state \<Rightarrow> vis_state" where
  "no_data st = st\<lparr>error := Some ''No data available'', isLoading := False\<rparr>"

section \<open>Properties of property access\<close>

lemma index_key_digits:
  "\<forall>c \<in> set (index_key n). 48 \<le> (of_char c :: nat) \<and> (of_char c :: nat) \<le> 57"
proof (induction n rule: index_key.induct)
  case (1 n)
  show ?case
  proof (cases "n < 10")
    case True
    then show ?thesis
      by (subst index_key.simps) simp
  next
    case False
    have "n mod 10 < 10" by simp
    then have "48 + n mod 10 < 256" by linarith
    with False 1 show ?thesis
      by (subst index_key.simps) auto
  qed
qed

lemma index_key_not_value: "index_key n \<noteq> ''value''"
proof
  assume "index_key n = ''value''"
  then have "CHR ''v'' \<in> set (index_key n)" by simp
  with index_key_digits [of n] show False by fastforce
qed

lemma index_entries_value: "map_of (index_entries xs) ''value'' = None"
proof -
  have "''value'' \<notin> set (map index_key [0..<length xs])"
  proof
    assume "''value'' \<in> set (map index_key [0..<length xs])"
    then obtain n where "index_key n = ''value''" by auto
    with index_key_not_value show False by blast
  qed
  then show ?thesis
    unfolding index_entries_def
    by (metis (no_types, lifting) diff_zero length_map length_upt map_fst_zip map_of_eq_None_iff set_map)
qed

lemma in_value_wrapper_object:
  "truthy v \<and> typeof v = TObject \<Longrightarrow> in_op ''value'' v = Inr (wrapper_object v)"
  by (cases v)
     (simp_all add: truthy_def typeof_def in_op_def own_props_def enum_props_def
        wrapper_object_def index_entries_value)

lemma looker_value_object_eq: "looker_value_object v = Inr (wrapper_object v)"
proof (cases "truthy v \<and> typeof v = TObject")
  case True
  then show ?thesis
    by (simp add: looker_value_object_def in_value_wrapper_object)
next
  case False
  then have "\<not> wrapper_object v"
    by (cases v) (simp_all add: wrapper_object_def truthy_def typeof_def)
  with False show ?thesis
    by (auto simp: looker_value_object_def)
qed

lemma get_value_of_wrapper:
  "wrapper_object v \<Longrightarrow> get_prop v k = Inr (field_of v k)"
  by (cases v)
     (simp_all add: wrapper_object_def get_prop_def nullish_def own_props_def enum_props_def
        field_of_def)

lemma unwrap_looker_unwrapped: "unwrap_looker v = Inr (unwrapped v)"
  by (simp add: unwrap_looker_def looker_value_object_eq and_then_def unwrapped_def
      get_value_of_wrapper)

section \<open>getFieldValue\<close>




text \<open>
  C6. For an object row that has the field identifier as a key: \<^verbatim>\<open>getFieldValue\<close> returns
  the stored value as it is when that value is not a wrapper object, and the \<^verbatim>\<open>value\<close>
  field of the stored value, not the stored value, when it is an object with a
  \<^verbatim>\<open>value\<close> key.
\<close>

theorem getFieldValue_direct_key:
  assumes "map_of es fieldName = Some v"
  shows "(\<not> wrapper_object v \<longrightarrow> getFieldValue (JObj es) fieldName = Inr v) \<and>
         (\<forall>ws u. v = JObj ws \<and> map_of ws ''value'' = Some u \<longrightarrow>
            getFieldValue (JObj es) fieldName = Inr u)"
proof -
  have "getFieldValue (JObj es) fieldName = Inr (unwrapped v)"
    using assms
    by (simp add: getFieldValue_def in_op_def own_props_def enum_props_def and_then_def
        get_prop_def nullish_def unwrap_looker_unwrapped)
  then show ?thesis
    by (auto simp: unwrapped_def wrapper_object_def field_of_def)
qed

theorem getFieldValue_direct_key_witness:
  "getFieldValue (JObj [(''orders.count'', JNum (Finite 5))]) ''orders.count'' = Inr (JNum (Finite 5))
   \<and> getFieldValue
        (JObj [(''orders.count'', JObj [(''value'', JNum (Finite 7)), (''rendered'', JStr ''7 orders'')])])
        ''orders.count'' = Inr (JNum (Finite 7))"
proof -
  have a: "map_of [(''orders.count'', JNum (Finite 5))] ''orders.count'' = Some (JNum (Finite 5))"
    by simp
  have b: "map_of [(''orders.count'', JObj [(''value'', JNum (Finite 7)), (''rendered'', JStr ''7 orders'')])]
             ''orders.count'' = Some (JObj [(''value'', JNum (Finite 7)), (''rendered'', JStr ''7 orders'')])"
    by simp
  from getFieldValue_direct_key [OF a] getFieldValue_direct_key [OF b]
  show ?thesis by (simp add: wrapper_object_def)
qed

section \<open>formatFieldLabel\<close>










section \<open>transformLookerData\<close>

lemma assign_prop_fresh: "k \<notin> fst ` set ps \<Longrightarrow> assign_prop k v ps = ps @ [(k, v)]"
  by (induction ps) auto

lemma map_raising_total:
  "\<forall>x \<in> set xs. f x = Inr (g x) \<Longrightarrow> map_raising f xs = Inr (map g xs)"
  by (induction xs) (simp_all add: and_then_def)

lemma try_field_fold:
  "distinct (map fst (acc @ es)) \<Longrightarrow>
   foldl (\<lambda>transformedRow entry. try_field body entry transformedRow) acc es =
   acc @ map (\<lambda>e. (fst e, case body (snd e) of Inr x \<Rightarrow> x | Inl err \<Rightarrow> JNull)) es"
proof (induction es arbitrary: acc)
  case Nil
  show ?case by simp
next
  case (Cons e es)
  from Cons.prems have fresh: "fst e \<notin> fst ` set acc" by auto
  have step: "try_field body e acc =
      acc @ [(fst e, case body (snd e) of Inr x \<Rightarrow> x | Inl err \<Rightarrow> JNull)]"
    by (cases "body (snd e)") (simp_all add: try_field_def assign_prop_fresh [OF fresh])
  from Cons.prems have "distinct (map fst ((acc @ [(fst e, case body (snd e) of Inr x \<Rightarrow> x | Inl err \<Rightarrow> JNull)]) @ es))"
    by auto
  from Cons.IH [OF this] show ?case by (simp add: step)
qed

lemma transform_row_with_wf:
  "wf_object row \<Longrightarrow>
   transform_row_with body row =
   Inr (JObj (map (\<lambda>e. (fst e, case body (snd e) of Inr x \<Rightarrow> x | Inl err \<Rightarrow> JNull)) (enum_props row)))"
proof (cases row)
  case (JObj es)
  assume "wf_object row"
  with JObj have "distinct (map fst ([] @ es))" by (simp add: wf_object_def)
  from try_field_fold [OF this] JObj show ?thesis
    by (simp add: transform_row_with_def object_entries_def nullish_def and_then_def enum_props_def)
qed (simp_all add: wf_object_def)

lemma looker_try_body_normalized: "looker_try_body v = Inr (normalized v)"
proof (cases "nullish v")
  case True
  then show ?thesis by (auto simp: looker_try_body_def normalized_def nullish_def)
next
  case False
  show ?thesis
  proof (cases "typeof v = TObject")
    case True
    with False have "truthy v \<and> typeof v = TObject"
      by (cases v) (simp_all add: nullish_def truthy_def typeof_def)
    from in_value_wrapper_object [OF this] False True show ?thesis
      by (simp add: looker_try_body_def normalized_def nullish_def and_then_def unwrapped_def
          get_value_of_wrapper)
  next
    case nonobj: False
    then have "\<not> wrapper_object v"
      by (cases v) (simp_all add: wrapper_object_def typeof_def)
    with False nonobj show ?thesis
      by (simp add: looker_try_body_def normalized_def nullish_def and_then_def unwrapped_def)
  qed
qed

lemma transform_data_with_wf:
  assumes "\<forall>row \<in> set rows. wf_object row"
  shows "transform_data_with body rows =
           Inr (map (\<lambda>row. JObj (map (\<lambda>e. (fst e, case body (snd e) of Inr x \<Rightarrow> x | Inl err \<Rightarrow> JNull))
                                   (enum_props row))) rows)"
  unfolding transform_data_with_def
  by (rule map_raising_total) (use assms in \<open>simp add: transform_row_with_wf\<close>)

lemma transformLookerData_wf:
  assumes "\<forall>row \<in> set rows. wf_object row"
  shows "transformLookerData rows =
           Inr (map (\<lambda>row. JObj (map (\<lambda>e. (fst e, normalized (snd e))) (enum_props row))) rows)"
  by (simp add: transformLookerData_def transform_data_with_wf [OF assms] looker_try_body_normalized)



lemma normalized_flat_cell: "flat_cell v \<Longrightarrow> primitive (normalized v)"
  by (cases v)
     (auto simp: flat_cell_def normalized_def unwrapped_def primitive_def is_object_def
        nullish_def wrapper_object_def)

text \<open>
  C2, as the code has it. \<^verbatim>\<open>transformLookerData\<close> takes one wrapper off a cell and looks
  no further: for rows that are well-formed objects and whose cells are flat (each a
  primitive, \<^verbatim>\<open>null\<close>, or a wrapper object whose \<^verbatim>\<open>value\<close> is a primitive or \<^verbatim>\<open>null\<close>), every
  value of every row it returns is a primitive or \<^verbatim>\<open>null\<close>.
\<close>

theorem transformLookerData_flat_cells:
  assumes "\<forall>row \<in> set rows. wf_object row"
      and "\<forall>row \<in> set rows. \<forall>e \<in> set (enum_props row). flat_cell (snd e)"
    shows "\<exists>out. transformLookerData rows = Inr out \<and>
                 (\<forall>row \<in> set out. \<forall>e \<in> set (enum_props row). primitive (snd e))"
proof -
  let ?out = "map (\<lambda>row. JObj (map (\<lambda>e. (fst e, normalized (snd e))) (enum_props row))) rows"
  have "\<forall>row \<in> set ?out. \<forall>e \<in> set (enum_props row). primitive (snd e)"
    using assms(2) by (auto simp: enum_props_def normalized_flat_cell)
  with transformLookerData_wf [OF assms(1)] show ?thesis by blast
qed

theorem transformLookerData_flat_cells_witness:
  "\<exists>out. transformLookerData
           [JObj [(''date'', JObj [(''value'', JStr ''2024-01-01'')]), (''count'', JNum (Finite 5))],
            JObj [(''date'', JNull),
                  (''count'', JObj [(''value'', JNum (Finite 7)), (''rendered'', JStr ''7 orders'')])]]
         = Inr out \<and>
         list_all (\<lambda>row. list_all (\<lambda>e. primitive (snd e)) (enum_props row)) out"
proof -
  let ?rows =
    "[JObj [(''date'', JObj [(''value'', JStr ''2024-01-01'')]), (''count'', JNum (Finite 5))],
      JObj [(''date'', JNull),
            (''count'', JObj [(''value'', JNum (Finite 7)), (''rendered'', JStr ''7 orders'')])]]"
  have wf: "\<forall>row \<in> set ?rows. wf_object row"
    by (simp add: wf_object_def)
  have flat: "\<forall>row \<in> set ?rows. \<forall>e \<in> set (enum_props row). flat_cell (snd e)"
    by (simp add: enum_props_def flat_cell_def primitive_def is_object_def wrapper_object_def
        field_of_def)
  from transformLookerData_flat_cells [OF wf flat] show ?thesis
    by (simp add: list_all_iff)
qed

text \<open>
  C2, as the specification has it, fails: a wrapper inside a wrapper's \<^verbatim>\<open>value\<close> survives,
  and so does an object that has no \<^verbatim>\<open>value\<close> key.
\<close>

theorem transformLookerData_nested_wrapper:
  "transformLookerData
     [JObj [(''count'', JObj [(''value'', JObj [(''value'', JNum (Finite 7))])]),
            (''extra'', JObj [(''note'', JStr ''x'')])]]
   = Inr [JObj [(''count'', JObj [(''value'', JNum (Finite 7))]),
                (''extra'', JObj [(''note'', JStr ''x'')])]]
   \<and> wrapper_object (JObj [(''value'', JNum (Finite 7))])
   \<and> \<not> primitive (JObj [(''note'', JStr ''x'')])"
  by (simp add: transformLookerData_def transform_data_with_def transform_row_with_def
      object_entries_def nullish_def enum_props_def and_then_def try_field_def
      looker_try_body_def typeof_def in_op_def own_props_def get_prop_def
      wrapper_object_def primitive_def is_object_def)

section \<open>The cell renderer\<close>

lemma is_object_in_value:
  "is_object v \<Longrightarrow> in_op ''value'' v = Inr (wrapper_object v)"
  by (rule in_value_wrapper_object) (cases v; simp add: is_object_def truthy_def typeof_def)

lemma cell_of_object:
  assumes "is_object v"
  shows "cell toLocaleString stringify v =
           (if wrapper_object v then
              Inr (if truthy (field_of v ''rendered'') then field_of v ''rendered''
                   else if truthy (field_of v ''value'') then field_of v ''value''
                   else JStr ''-'')
            else Inr (JStr (stringify v)))"
proof -
  from assms have obj: "v \<noteq> JNull" "v \<noteq> JUndefined" "typeof v = TObject"
    by (cases v; simp add: is_object_def typeof_def)+
  show ?thesis
    by (simp add: cell_def obj is_object_in_value [OF assms] and_then_def get_value_of_wrapper)
qed

lemma cell_of_primitive:
  assumes "\<not> is_object v" and "\<not> nullish v"
  shows "cell toLocaleString stringify v =
           (case v of JNum n \<Rightarrow> Inr (JStr (toLocaleString n)) | _ \<Rightarrow> Inr v)"
  using assms by (cases v) (simp_all add: cell_def is_object_def nullish_def typeof_def)

text \<open>
  C1, as the code has it. The cell renderer returns, by the first rule that applies:
  the placeholder \<^verbatim>\<open>-\<close> for \<^verbatim>\<open>null\<close> and \<^verbatim>\<open>undefined\<close>; for an object with a \<^verbatim>\<open>value\<close> key
  its \<^verbatim>\<open>rendered\<close> field when that is truthy, else its \<^verbatim>\<open>value\<close> field when that is
  truthy, else the placeholder; for any other object or array its JSON text; for a
  number its locale string; and any other value as it is.
\<close>

theorem cell_rules:
  "(nullish v \<longrightarrow> cell toLocaleString stringify v = Inr (JStr ''-''))
   \<and> (wrapper_object v \<longrightarrow>
        cell toLocaleString stringify v =
          Inr (if truthy (field_of v ''rendered'') then field_of v ''rendered''
               else if truthy (field_of v ''value'') then field_of v ''value''
               else JStr ''-''))
   \<and> (is_object v \<and> \<not> wrapper_object v \<longrightarrow>
        cell toLocaleString stringify v = Inr (JStr (stringify v)))
   \<and> (\<forall>n. v = JNum n \<longrightarrow> cell toLocaleString stringify v = Inr (JStr (toLocaleString n)))
   \<and> (\<not> nullish v \<and> \<not> is_object v \<and> typeof v \<noteq> TNumber \<longrightarrow>
        cell toLocaleString stringify v = Inr v)"
proof -
  have "nullish v \<longrightarrow> cell toLocaleString stringify v = Inr (JStr ''-'')"
    by (auto simp: cell_def nullish_def)
  moreover have "wrapper_object v \<longrightarrow> is_object v"
    by (cases v) (simp_all add: wrapper_object_def is_object_def)
  moreover have "\<forall>n. v = JNum n \<longrightarrow>
      cell toLocaleString stringify v = Inr (JStr (toLocaleString n))"
    by (simp add: cell_def typeof_def)
  moreover have "\<not> nullish v \<and> \<not> is_object v \<and> typeof v \<noteq> TNumber \<longrightarrow>
      cell toLocaleString stringify v = Inr v"
    by (cases v) (simp_all add: cell_of_primitive is_object_def nullish_def typeof_def)
  ultimately show ?thesis
    by (auto simp: cell_of_object)
qed

theorem cell_rules_witness:
  "cell (\<lambda>n. ''1,234'') (\<lambda>v. ''{}'') JNull = Inr (JStr ''-'')
   \<and> cell (\<lambda>n. ''1,234'') (\<lambda>v. ''{}'')
        (JObj [(''value'', JNum (Finite 7)), (''rendered'', JStr ''7 orders'')]) = Inr (JStr ''7 orders'')
   \<and> cell (\<lambda>n. ''1,234'') (\<lambda>v. ''{}'') (JObj [(''value'', JNum (Finite 7))]) = Inr (JNum (Finite 7))
   \<and> cell (\<lambda>n. ''1,234'') (\<lambda>v. ''{}'') (JObj [(''value'', JNull)]) = Inr (JStr ''-'')
   \<and> cell (\<lambda>n. ''1,234'') (\<lambda>v. ''{}'') (JObj []) = Inr (JStr ''{}'')
   \<and> cell (\<lambda>n. ''1,234'') (\<lambda>v. ''{}'') (JNum (Finite 1234)) = Inr (JStr ''1,234'')
   \<and> cell (\<lambda>n. ''1,234'') (\<lambda>v. ''{}'') (JStr ''north'') = Inr (JStr ''north'')"
  using cell_rules [of JNull "\<lambda>n. ''1,234''" "\<lambda>v. ''{}''"]
    cell_rules [of "JObj [(''value'', JNum (Finite 7)), (''rendered'', JStr ''7 orders'')]"
      "\<lambda>n. ''1,234''" "\<lambda>v. ''{}''"]
    cell_rules [of "JObj [(''value'', JNum (Finite 7))]" "\<lambda>n. ''1,234''" "\<lambda>v. ''{}''"]
    cell_rules [of "JObj [(''value'', JNull)]" "\<lambda>n. ''1,234''" "\<lambda>v. ''{}''"]
    cell_rules [of "JObj []" "\<lambda>n. ''1,234''" "\<lambda>v. ''{}''"]
    cell_rules [of "JNum (Finite 1234)" "\<lambda>n. ''1,234''" "\<lambda>v. ''{}''"]
    cell_rules [of "JStr ''north''" "\<lambda>n. ''1,234''" "\<lambda>v. ''{}''"]
  by (simp add: nullish_def wrapper_object_def is_object_def field_of_def truthy_def typeof_def)

text \<open>
  C1, as the specification has it, fails. A wrapper with the \<^verbatim>\<open>value\<close> field \<open>0\<close> and no
  \<^verbatim>\<open>rendered\<close> field is shown as the placeholder, not as its \<^verbatim>\<open>value\<close> field; and a
  wrapper whose \<^verbatim>\<open>rendered\<close> field is present and empty is shown as its \<^verbatim>\<open>value\<close> field,
  not as its \<^verbatim>\<open>rendered\<close> field.
\<close>

theorem cell_falsy_fields:
  "cell (\<lambda>n. ''0'') (\<lambda>v. ''{}'') (JObj [(''value'', JNum (Finite 0))]) = Inr (JStr ''-'')
   \<and> cell (\<lambda>n. ''0'') (\<lambda>v. ''{}'') (JObj [(''value'', JNum (Finite 5)), (''rendered'', JStr '''')])
       = Inr (JNum (Finite 5))"
  by (simp add: cell_def typeof_def in_op_def own_props_def enum_props_def and_then_def
      get_prop_def nullish_def truthy_def)

section \<open>transformQueryData\<close>

lemma index_key_not_length: "index_key n \<noteq> ''length''"
proof
  assume "index_key n = ''length''"
  then have "CHR ''l'' \<in> set (index_key n)" by simp
  with index_key_digits [of n] show False by fastforce
qed

lemma array_length: "get_prop (JArr xs) ''length'' = Inr (JNum (Finite (of_nat (length xs))))"
proof -
  have "''length'' \<notin> set (map index_key [0..<length xs])"
  proof
    assume "''length'' \<in> set (map index_key [0..<length xs])"
    then obtain n where "index_key n = ''length''" by auto
    with index_key_not_length show False by blast
  qed
  then have "map_of (index_entries xs) ''length'' = None"
    unfolding index_entries_def
    by (metis (no_types, lifting) diff_zero length_map length_upt map_fst_zip map_of_eq_None_iff set_map)
  then show ?thesis
    by (simp add: get_prop_def nullish_def own_props_def map_add_def)
qed





lemma transformQueryData_array:
  "transformQueryData (JArr rows) = map_raising transformQueryRow rows"
  by (cases rows) (simp_all add: transformQueryData_def array_length and_then_def truthy_def)









section \<open>handleDataUpdate\<close>

lemma opt_prop_member: "opt_prop v k = Inr (member_of v k)"
  by (cases v)
     (simp_all add: opt_prop_def get_prop_def nullish_def member_of_def own_props_def
        enum_props_def)

lemma resolve_raw_data_eq:
  "resolve_raw_data queryResponse =
     Inr (if truthy (member_of (member_of queryResponse ''_queryResponse'') ''data'')
          then member_of (member_of queryResponse ''_queryResponse'') ''data''
          else if truthy (member_of queryResponse ''data'') then member_of queryResponse ''data''
          else JArr [])"
  by (simp add: resolve_raw_data_def opt_prop_member and_then_def)

lemma handleDataUpdate_total:
  "handleDataUpdate config st queryResponse =
     Inr (case handleDataUpdate_try config st queryResponse of
            Inr st' \<Rightarrow> st' | Inl err \<Rightarrow> failed st)"
  by (simp add: handleDataUpdate_def opt_prop_member and_then_def failed_def split: sum.splits)

lemma handleDataUpdate_try_empty:
  "resolve_raw_data queryResponse = Inr (JArr []) \<Longrightarrow>
   handleDataUpdate_try config st queryResponse = Inr (no_data st)"
  by (simp add: handleDataUpdate_try_def and_then_def transformQueryData_array no_data_def)

text \<open>
  C5. For every data update: the row data is the \<^verbatim>\<open>data\<close> array of the nested
  \<^verbatim>\<open>_queryResponse\<close> when there is one, else the top-level \<^verbatim>\<open>data\<close> array when there is
  one, else the empty array; when the row data is empty the state holds the message
  \<^verbatim>\<open>No data available\<close> and the component renders the error panel, not the table (the
  table's data and columns stay as they were); the call returns a state whatever the
  query response is, and when the processing raises, that state holds the message
  \<^verbatim>\<open>Failed to process visualization data\<close> and renders as the error panel.
\<close>

theorem handleDataUpdate_errors:
  "(\<forall>rows. member_of (member_of queryResponse ''_queryResponse'') ''data'' = JArr rows \<longrightarrow>
      resolve_raw_data queryResponse = Inr (JArr rows))
   \<and> (\<forall>rows. nullish (member_of (member_of queryResponse ''_queryResponse'') ''data'') \<and>
        member_of queryResponse ''data'' = JArr rows \<longrightarrow>
      resolve_raw_data queryResponse = Inr (JArr rows))
   \<and> (nullish (member_of (member_of queryResponse ''_queryResponse'') ''data'') \<and>
      nullish (member_of queryResponse ''data'') \<longrightarrow>
      resolve_raw_data queryResponse = Inr (JArr []))
   \<and> (resolve_raw_data queryResponse = Inr (JArr []) \<longrightarrow>
      handleDataUpdate config st queryResponse = Inr (no_data st) \<and>
      render (no_data st) = ErrorMessage ''No data available'' \<and>
      data (no_data st) = data st \<and> columns (no_data st) = columns st)
   \<and> (\<exists>st'. handleDataUpdate config st queryResponse = Inr st')
   \<and> (\<forall>err. handleDataUpdate_try config st queryResponse = Inl err \<longrightarrow>
      handleDataUpdate config st queryResponse = Inr (failed st) \<and>
      render (failed st) = ErrorMessage ''Failed to process visualization data'')"
proof -
  have "render (no_data st) = ErrorMessage ''No data available''"
    "data (no_data st) = data st" "columns (no_data st) = columns st"
    "render (failed st) = ErrorMessage ''Failed to process visualization data''"
    by (simp_all add: render_def no_data_def failed_def)
  then show ?thesis
    by (auto simp: resolve_raw_data_eq truthy_def nullish_def handleDataUpdate_total
        handleDataUpdate_try_empty [unfolded resolve_raw_data_eq])
qed

theorem handleDataUpdate_errors_witness:
  "resolve_raw_data
     (JObj [(''_queryResponse'', JObj [(''data'', JArr [JObj [(''count'', JNum (Finite 5))]])]),
            (''data'', JArr [JObj [(''count'', JStr ''5'')]])])
   = Inr (JArr [JObj [(''count'', JNum (Finite 5))]])
   \<and> resolve_raw_data (JObj [(''data'', JArr [JObj [(''count'', JStr ''5'')]])])
       = Inr (JArr [JObj [(''count'', JStr ''5'')]])
   \<and> resolve_raw_data (JObj []) = Inr (JArr [])
   \<and> handleDataUpdate None \<lparr>error = None, isLoading = True, data = [], columns = []\<rparr> (JObj [])
       = Inr \<lparr>error = Some ''No data available'', isLoading = False, data = [], columns = []\<rparr>
   \<and> handleDataUpdate None \<lparr>error = None, isLoading = True, data = [], columns = []\<rparr>
         (JObj [(''data'', JArr [JNull])])
       = Inr \<lparr>error = Some ''Failed to process visualization data'', isLoading = False,
              data = [], columns = []\<rparr>"
proof -
  have raises: "handleDataUpdate_try None \<lparr>error = None, isLoading = True, data = [], columns = []\<rparr>
      (JObj [(''data'', JArr [JNull])]) = Inl TypeError"
    by (simp add: handleDataUpdate_try_def resolve_raw_data_eq member_of_def own_props_def
        enum_props_def truthy_def and_then_def transformQueryData_array transformQueryRow_def
        object_entries_def nullish_def)
  from handleDataUpdate_errors
         [of "JObj [(''_queryResponse'', JObj [(''data'', JArr [JObj [(''count'', JNum (Finite 5))]])]),
                    (''data'', JArr [JObj [(''count'', JStr ''5'')]])]"]
       handleDataUpdate_errors [of "JObj [(''data'', JArr [JObj [(''count'', JStr ''5'')]])]"]
       handleDataUpdate_errors
         [of "JObj []" None "\<lparr>error = None, isLoading = True, data = [], columns = []\<rparr>"]
       handleDataUpdate_errors
         [of "JObj [(''data'', JArr [JNull])]" None
             "\<lparr>error = None, isLoading = True, data = [], columns = []\<rparr>"]
       raises
  show ?thesis
    by (simp add: member_of_def own_props_def enum_props_def nullish_def no_data_def failed_def)
qed

section \<open>The columns of handleDataUpdate\<close>









section \<open>The pagination reset\<close>

lemma apply_setter_deps: "effect_deps (apply_setter a s) = effect_deps s"
  by (cases a) simp_all

lemma fold_apply_setter_deps: "effect_deps (fold apply_setter batch s) = effect_deps s"
  by (induction batch arbitrary: s) (simp_all add: apply_setter_deps)

lemma pagination_effect_refs:
  "data_ref (pagination_effect s) = data_ref s"
  "columns_ref (pagination_effect s) = columns_ref s"
  "effect_deps (pagination_effect s) = Some (data_ref s, columns_ref s)"
  by (simp_all add: pagination_effect_def)

lemma reachable_deps: "reachable s \<Longrightarrow> effect_deps s = Some (data_ref s, columns_ref s)"
proof (induction rule: reachable.induct)
  case (mounted initialData initialColumns config)
  show ?case
    unfolding mount_def by (simp only: pagination_effect_refs)
next
  case (updated s batch)
  show ?case
    unfolding update_def by (simp only: pagination_effect_refs)
qed

text \<open>
  C8. In every reachable state of the table hook, an update after which the identity of
  the row data or of the column set is another one than before leaves the page index at
  zero once its effect has run, whatever the page index was and whatever the update set
  it to.
\<close>

theorem pagination_reset:
  assumes "reachable s"
      and "data_ref (update batch s) \<noteq> data_ref s \<or> columns_ref (update batch s) \<noteq> columns_ref s"
    shows "pageIndex (update batch s) = 0"
proof -
  let ?s = "fold apply_setter batch s"
  from assms(2) have changed: "(data_ref ?s, columns_ref ?s) \<noteq> (data_ref s, columns_ref s)"
    by (auto simp: update_def pagination_effect_refs)
  have "effect_deps ?s = Some (data_ref s, columns_ref s)"
    by (simp only: fold_apply_setter_deps reachable_deps [OF assms(1)])
  with changed have "effect_deps ?s \<noteq> Some (data_ref ?s, columns_ref ?s)"
    by auto
  then show ?thesis
    by (simp add: update_def pagination_effect_def)
qed

theorem pagination_reset_witness:
  "pageIndex (update [SetPageIndex 3] (mount 0 0 None)) = 3
   \<and> pageIndex (update [SetColumns 1, SetData 1, SetPageIndex 5]
                   (update [SetPageIndex 3] (mount 0 0 None))) = 0"
proof -
  have r: "reachable (update [SetPageIndex 3] (mount 0 0 None))"
    by (intro reachable.intros)
  have c: "data_ref (update [SetColumns 1, SetData 1, SetPageIndex 5]
                       (update [SetPageIndex 3] (mount 0 0 None)))
             \<noteq> data_ref (update [SetPageIndex 3] (mount 0 0 None))
           \<or> columns_ref (update [SetColumns 1, SetData 1, SetPageIndex 5]
                       (update [SetPageIndex 3] (mount 0 0 None)))
             \<noteq> columns_ref (update [SetPageIndex 3] (mount 0 0 None))"
    by (simp add: update_def mount_def pagination_effect_def)
  have "pageIndex (update [SetPageIndex 3] (mount 0 0 None)) = 3"
    by (simp add: update_def mount_def pagination_effect_def)
  with pagination_reset [OF r c] show ?thesis by simp
qed

end
